theory Spec2Isabelle
  imports Complex_Main
begin

section \<open>Feature records and the React context\<close>

text \<open>
  What \<open>date-fns\<close> is handed as a date, by what its \<open>parse\<close> makes of it: a number of
  milliseconds since the epoch (a number, a \<open>Date\<close>, a date string it can read), or
  something that is no date at all and gives an Invalid Date.
\<close>

datatype date_input = Milliseconds int | NotADate

text \<open>
  A feature record as the consumers read it: \<open>feature.id\<close>, \<open>feature.manually_activated\<close>
  and \<open>feature.release_date\<close>.
\<close>

record feature =
  feature_id :: string
  manually_activated :: bool
  release_date :: date_input

text \<open>The slice \<open>state.features\<close> of the redux store, read as \<open>value.features\<close>.\<close>

record features_state =
  enabledFeatures :: "feature list"

text \<open>
  The value a \<open>Consumer\<close> receives. It is a JavaScript object; the two properties that occur
  in the source are \<open>features\<close> (set by \<open>_FoggleProvider.render\<close>) and a top-level
  \<open>enabledFeatures\<close> (set by the default of \<open>React.createContext\<close>). A property that the
  object does not have reads as \<open>undefined\<close>, which is \<open>None\<close> here.
\<close>

record context_value =
  features :: "features_state option"
  enabledFeatures_top :: "feature list option"

datatype error = Error string | TypeError string

text \<open>\<open>React.createContext({enabledFeatures: []})\<close>: what a consumer with no provider above it receives.\<close>

definition default_context :: context_value where
  "default_context = \<lparr>features = None, enabledFeatures_top = Some []\<rparr>"

text \<open>\<open><ContextProvider value={{features}}>\<close> in \<open>_FoggleProvider.render\<close>.\<close>

definition ContextProvider_value :: "features_state \<Rightarrow> context_value" where
  "ContextProvider_value fs = \<lparr>features = Some fs, enabledFeatures_top = None\<rparr>"

text \<open>
  The time value of a \<open>Date\<close> is a whole number of milliseconds of at most 8640000000000000
  in absolute value, or \<open>NaN\<close> (an Invalid Date), which is \<open>None\<close> here. \<open>TimeClip\<close> is
  what \<open>new Date(t)\<close> applies to a number of milliseconds.
\<close>

definition TimeClip :: "int \<Rightarrow> int option" where
  "TimeClip t = (if \<bar>t\<bar> > 8640000000000000 then None else Some t)"

text \<open>\<open>parse(argument).getTime()\<close> of \<open>date-fns\<close>.\<close>

definition parse_getTime :: "date_input \<Rightarrow> int option" where
  "parse_getTime argument = (case argument of Milliseconds t \<Rightarrow> TimeClip t | NotADate \<Rightarrow> None)"

text \<open>
  \<open>isBefore\<close> of \<open>date-fns\<close>: \<open>parse(dirtyDate).getTime() < parse(dirtyDateToCompare).getTime()\<close>.
  A comparison with \<open>NaN\<close> is false.
\<close>

definition isBefore :: "date_input \<Rightarrow> date_input \<Rightarrow> bool" where
  "isBefore dirtyDate dirtyDateToCompare =
     (case (parse_getTime dirtyDate, parse_getTime dirtyDateToCompare) of
        (Some date, Some dateToCompare) \<Rightarrow> date < dateToCompare
      | _ \<Rightarrow> False)"

text \<open>
  The function \<open>FoggleConsumer.render\<close> hands to \<open>Consumer\<close>. \<open>now\<close> is the time
  value of \<open>new Date()\<close>, in milliseconds;
  the result is what is rendered: \<open>Some children\<close>, or \<open>None\<close> for \<open>null\<close>. Reading
  \<open>enabledFeatures\<close> of an undefined \<open>value.features\<close> throws a \<open>TypeError\<close>.
\<close>

definition FoggleConsumer_render :: "string \<Rightarrow> 'c \<Rightarrow> int \<Rightarrow> context_value \<Rightarrow> error + 'c option" where
  "FoggleConsumer_render ident children now val =
     (case features val of
        None \<Rightarrow> Inl (TypeError ''Cannot read property 'enabledFeatures' of undefined'')
      | Some fs \<Rightarrow>
          (case find (\<lambda>feature. feature_id feature = ident) (enabledFeatures fs) of
             Some found \<Rightarrow>
               Inr (if manually_activated found \<or> isBefore (release_date found) (Milliseconds now)
                    then Some children else None)
           | None \<Rightarrow> Inr None))"






section \<open>JavaScript values\<close>

text \<open>
  The values the configuration handles: \<open>undefined\<close> (also an omitted argument), strings,
  and plain objects, given by their own enumerable properties in insertion order.
\<close>

datatype js_value = JUndefined | JString string | JObject "(string \<times> js_value) list"

text \<open>A JavaScript number is \<open>NaN\<close>, an infinity or a finite value.\<close>

datatype js_number = NaN | PosInfinity | NegInfinity | Finite real

text \<open>The own properties of a headers object.\<close>

type_synonym js_object = "string \<rightharpoonup> js_value"

type_synonym ref = nat

fun truthy :: "js_value \<Rightarrow> bool" where
  "truthy JUndefined = False"
| "truthy (JString s) = (s \<noteq> [])"
| "truthy (JObject ps) = True"

fun typeof :: "js_value \<Rightarrow> string" where
  "typeof JUndefined = ''undefined''"
| "typeof (JString s) = ''string''"
| "typeof (JObject ps) = ''object''"

fun isNaN :: "js_number \<Rightarrow> bool" where
  "isNaN NaN = True"
| "isNaN PosInfinity = False"
| "isNaN NegInfinity = False"
| "isNaN (Finite x) = False"

text \<open>The decimal numeral of an array index, as a property key.\<close>

fun decimal :: "nat \<Rightarrow> string" where
  "decimal n =
     (if n < 10 then [char_of (48 + n)]
      else decimal (n div 10) @ [char_of (48 + n mod 10)])"

declare decimal.simps [simp del]

text \<open>
  The own enumerable properties an object spread \<open>{...v}\<close> copies: those of an object,
  the indexed characters of a string, nothing of \<open>undefined\<close>.
\<close>

fun own_properties :: "js_value \<Rightarrow> (string \<times> js_value) list" where
  "own_properties JUndefined = []"
| "own_properties (JString s) = zip (map decimal [0..<length s]) (map (\<lambda>c. JString [c]) s)"
| "own_properties (JObject ps) = ps"

text \<open>Spreading properties into an object under construction: a later key overwrites.\<close>

definition spread :: "js_object \<Rightarrow> (string \<times> js_value) list \<Rightarrow> js_object" where
  "spread obj ps = fold (\<lambda>(k, v) m. m(k \<mapsto> v)) ps obj"

text \<open>The property key a value is converted to in \<open>obj[name]\<close>.\<close>

fun ToPropertyKey :: "js_value \<Rightarrow> string" where
  "ToPropertyKey JUndefined = ''undefined''"
| "ToPropertyKey (JString s) = s"
| "ToPropertyKey (JObject ps) = ''[object Object]''"

text \<open>
  The assignment \<open>obj[k] = v\<close> on a plain object. It writes an own property, except that
  \<open>__proto__\<close>, when it is not an own property, reaches the accessor of
  \<open>Object.prototype\<close> and leaves the own properties as they are.
\<close>

definition set_property :: "js_object \<Rightarrow> string \<Rightarrow> js_value \<Rightarrow> js_object" where
  "set_property obj k v = (if k = ''__proto__'' \<and> obj k = None then obj else obj(k \<mapsto> v))"

text \<open>\<open>console.assert(condition, message)\<close> writes the message when the condition is falsy; it does not throw.\<close>

definition console_assert :: "js_value \<Rightarrow> string \<Rightarrow> string list \<Rightarrow> string list" where
  "console_assert condition message out = (if truthy condition then out else out @ [message])"

section \<open>FoggleConfig\<close>

text \<open>
  The object \<open>defaultOptions\<close> of the closure. Its property \<open>headers\<close> holds a reference to
  a headers object: the object is shared by whoever holds the reference, so it lives in a store.
\<close>

record options =
  updateInterval :: js_number
  headers :: ref
  host :: js_value

text \<open>
  The state behind one configuration: \<open>defaultOptions\<close>, the store of headers objects with
  its next free reference, and what has been written to the console.
\<close>

record config_state =
  defaultOptions :: options
  heap :: "ref \<Rightarrow> js_object"
  next_ref :: ref
  console :: "string list"

text \<open>Allocation of a new object with the given own properties.\<close>

definition new_object :: "js_object \<Rightarrow> config_state \<Rightarrow> ref \<times> config_state" where
  "new_object obj s = (next_ref s, s\<lparr>heap := (heap s)(next_ref s := obj), next_ref := Suc (next_ref s)\<rparr>)"

definition FoggleConfig :: "js_value \<Rightarrow> config_state" where
  "FoggleConfig h =
     \<lparr>defaultOptions = \<lparr>updateInterval = Finite (1000 * 60 * 10), headers = 0, host = h\<rparr>,
      heap = (\<lambda>r. Map.empty),
      next_ref = 1,
      console = console_assert h
        ''Host not specified. Please pass a host to the FoggleConfig'' []\<rparr>"

text \<open>\<open>{ ...defaultOptions }\<close>: a new object with the same three property values, the reference in \<open>headers\<close> included.\<close>

definition getOptions :: "config_state \<Rightarrow> options" where
  "getOptions s = defaultOptions s"

definition getHost :: "config_state \<Rightarrow> js_value" where
  "getHost s = host (defaultOptions s)"

definition getUpdateInterval :: "config_state \<Rightarrow> js_number" where
  "getUpdateInterval s = updateInterval (defaultOptions s)"

text \<open>The result is the thrown error or \<open>undefined\<close>, together with the state afterwards.\<close>

definition setUpdateInterval :: "js_number \<Rightarrow> config_state \<Rightarrow> (error + unit) \<times> config_state" where
  "setUpdateInterval interval s =
     (if isNaN interval then (Inl (Error ''interval must be of type number''), s)
      else (Inr (), s\<lparr>defaultOptions := (defaultOptions s)\<lparr>updateInterval := interval\<rparr>\<rparr>))"

text \<open>\<open>{ ...defaultOptions.headers }\<close>: a new object, held by the caller alone, so it is returned by its properties.\<close>

definition getHeaders :: "config_state \<Rightarrow> js_object" where
  "getHeaders s = heap s (headers (defaultOptions s))"

text \<open>
  The identifier \<open>key\<close> in \<open>addHeader\<close> is declared nowhere; \<open>typeof\<close> of an unresolvable
  reference is \<open>"undefined"\<close>, as of the value \<open>undefined\<close>.
\<close>

definition key :: js_value where
  "key = JUndefined"

text \<open>\<open>addHeader(name = '', value)\<close>: the default replaces an undefined \<open>name\<close>.\<close>

definition addHeader :: "js_value \<Rightarrow> js_value \<Rightarrow> config_state \<Rightarrow> config_state" where
  "addHeader name0 v s =
     (let name = (if name0 = JUndefined then JString [] else name0) in
      if typeof key = ''object'' \<and> typeof v = ''undefined'' then
        (case new_object (spread (heap s (headers (defaultOptions s))) (own_properties name)) s of
           (r, s') \<Rightarrow> s'\<lparr>defaultOptions := (defaultOptions s')\<lparr>headers := r\<rparr>\<rparr>)
      else
        s\<lparr>heap := (heap s)(headers (defaultOptions s) :=
             set_property (heap s (headers (defaultOptions s))) (ToPropertyKey name) v)\<rparr>)"

definition clearHeaders :: "config_state \<Rightarrow> config_state" where
  "clearHeaders s =
     (case new_object Map.empty s of
        (r, s') \<Rightarrow> s'\<lparr>defaultOptions := (defaultOptions s')\<lparr>headers := r\<rparr>\<rparr>)"

text \<open>
  What a caller can do to the object \<open>opts\<close> that \<open>getOptions\<close> returned: assign to one of its
  three properties (\<open>opts.headers = {...}\<close> assigns a new object), or write and delete
  entries of the headers object it refers to (\<open>opts.headers[k] = v\<close>, \<open>delete opts.headers[k]\<close>).
\<close>

datatype mutation =
    AssignHost js_value
  | AssignUpdateInterval js_number
  | AssignHeaders js_object
  | AssignHeader string js_value
  | DeleteHeader string

fun mutate :: "mutation \<Rightarrow> options \<times> config_state \<Rightarrow> options \<times> config_state" where
  "mutate (AssignHost h) (opts, s) = (opts\<lparr>host := h\<rparr>, s)"
| "mutate (AssignUpdateInterval n) (opts, s) = (opts\<lparr>updateInterval := n\<rparr>, s)"
| "mutate (AssignHeaders obj) (opts, s) = (case new_object obj s of (r, s') \<Rightarrow> (opts\<lparr>headers := r\<rparr>, s'))"
| "mutate (AssignHeader k v) (opts, s) =
     (opts, s\<lparr>heap := (heap s)(headers opts := set_property (heap s (headers opts)) k v)\<rparr>)"
| "mutate (DeleteHeader k) (opts, s) =
     (opts, s\<lparr>heap := (heap s)(headers opts := (heap s (headers opts))(k := None))\<rparr>)"

section \<open>The poller of the provider\<close>

text \<open>
  What \<open>componentDidMount\<close> does to the outside, in order: calls of \<open>props.checkFeatures\<close>
  with their two arguments, and calls of \<open>setInterval\<close> with the handler and the delay.
  The only handler is the bound function \<open>update\<close>.
\<close>

datatype handler = Update

datatype effect = CheckFeatures js_value js_object | SetInterval handler js_number

text \<open>The function \<open>update\<close>: one call of \<open>checkFeatures\<close>; it returns itself, bound.\<close>

definition update :: "config_state \<Rightarrow> effect list \<times> handler" where
  "update cfg = ([CheckFeatures (getHost cfg) (getHeaders cfg)], Update)"

text \<open>
  The arguments of \<open>setInterval\<close> are evaluated from left to right: first the call of
  \<open>update\<close>, then \<open>getUpdateInterval()\<close>.
\<close>

definition componentDidMount :: "config_state \<Rightarrow> effect list" where
  "componentDidMount cfg =
     (case update cfg of
        (effects, h) \<Rightarrow> effects @ [SetInterval h (getUpdateInterval cfg)])"

text \<open>One firing of a timer: the handler runs on the configuration as it is then; its result is dropped.\<close>

fun fire :: "handler \<Rightarrow> config_state \<Rightarrow> effect list" where
  "fire Update cfg = fst (update cfg)"

section \<open>Lookup in a list of features\<close>

lemma find_first_match:
  "\<forall>f\<in>set pre. \<not> P f \<Longrightarrow> P r \<Longrightarrow> find P (pre @ r # post) = Some r"
  by (induction pre) simp_all

lemma find_no_match: "\<forall>f\<in>set xs. \<not> P f \<Longrightarrow> find P xs = None"
  by (simp add: find_None_iff)

lemma empty_snapshot_not_active:
  "FoggleConsumer_render ident children now (ContextProvider_value \<lparr>enabledFeatures = []\<rparr>) = Inr None"
  by (simp add: FoggleConsumer_render_def ContextProvider_value_def)

text \<open>
  Assignments to the three properties of the object \<open>getOptions\<close> returned stay in that
  object: the configuration is as before. For \<open>headers\<close> this needs the configuration's
  headers object to be an allocated one.
\<close>

lemma getOptions_top_level_copy:
  "snd (mutate (AssignHost h) (getOptions s, s)) = s"
  "snd (mutate (AssignUpdateInterval n) (getOptions s, s)) = s"
  "headers (defaultOptions s) < next_ref s \<Longrightarrow>
     getOptions (snd (mutate (AssignHeaders obj) (getOptions s, s))) = getOptions s
     \<and> getHeaders (snd (mutate (AssignHeaders obj) (getOptions s, s))) = getHeaders s"
  by (simp_all add: getOptions_def getHeaders_def new_object_def)

lemma isBefore_now:
  "\<bar>now\<bar> \<le> 8640000000000000 \<Longrightarrow>
     isBefore d (Milliseconds now)
       \<longleftrightarrow> (\<exists>t. d = Milliseconds t \<and> \<bar>t\<bar> \<le> 8640000000000000 \<and> t < now)"
  by (cases d) (auto simp: isBefore_def parse_getTime_def TimeClip_def)

section \<open>The activation decision\<close>

text \<open>
  C1. For every feature record and every current time (a valid time value, as that of
  \<open>new Date()\<close> is), the consumer renders its children for that record if and only if the
  record is manually activated or its release date is a point in time strictly before the
  current time; a release date equal to the current time does not count as before, so a
  record that is not manually activated is then not rendered.
\<close>

theorem C1_activation_decision:
  "\<bar>now\<bar> \<le> 8640000000000000 \<Longrightarrow>
   (FoggleConsumer_render (feature_id r) children now
       (ContextProvider_value \<lparr>enabledFeatures = [r]\<rparr>) = Inr (Some children)
     \<longleftrightarrow> manually_activated r
          \<or> (\<exists>t. release_date r = Milliseconds t \<and> \<bar>t\<bar> \<le> 8640000000000000 \<and> t < now))
   \<and> (release_date r = Milliseconds now \<and> \<not> manually_activated r \<longrightarrow>
        FoggleConsumer_render (feature_id r) children now
          (ContextProvider_value \<lparr>enabledFeatures = [r]\<rparr>) = Inr None)"
  by (auto simp: FoggleConsumer_render_def ContextProvider_value_def isBefore_now)

theorem C1_activation_decision_witness:
  "(FoggleConsumer_render ''a'' (0::nat) 1000
       (ContextProvider_value \<lparr>enabledFeatures =
          [\<lparr>feature_id = ''a'', manually_activated = False, release_date = Milliseconds 1000\<rparr>]\<rparr>) = Inr None)
   \<and> (FoggleConsumer_render ''a'' (0::nat) 1001
       (ContextProvider_value \<lparr>enabledFeatures =
          [\<lparr>feature_id = ''a'', manually_activated = False, release_date = Milliseconds 1000\<rparr>]\<rparr>) = Inr (Some 0))
   \<and> (FoggleConsumer_render ''a'' (0::nat) 1000
       (ContextProvider_value \<lparr>enabledFeatures =
          [\<lparr>feature_id = ''a'', manually_activated = False,
             release_date = Milliseconds (- 9000000000000000)\<rparr>]\<rparr>) \<noteq> Inr (Some 0))"
proof -
  let ?r = "\<lparr>feature_id = ''a'', manually_activated = False, release_date = Milliseconds 1000\<rparr>"
  let ?old = "\<lparr>feature_id = ''a'', manually_activated = False,
                 release_date = Milliseconds (- 9000000000000000)\<rparr>"
  have at_equal: "FoggleConsumer_render ''a'' (0::nat) 1000
       (ContextProvider_value \<lparr>enabledFeatures = [?r]\<rparr>) = Inr None"
    using C1_activation_decision [of 1000 ?r "0::nat"] by simp
  have after: "FoggleConsumer_render ''a'' (0::nat) 1001
       (ContextProvider_value \<lparr>enabledFeatures = [?r]\<rparr>) = Inr (Some 0)"
    using C1_activation_decision [of 1001 ?r "0::nat"] by simp
  have out_of_range: "FoggleConsumer_render ''a'' (0::nat) 1000
       (ContextProvider_value \<lparr>enabledFeatures = [?old]\<rparr>) \<noteq> Inr (Some 0)"
    using C1_activation_decision [of 1000 ?old "0::nat"] by simp
  from at_equal after out_of_range show ?thesis by blast
qed

text \<open>
  C5. For every snapshot, feature id and time, the query on a provided snapshot raises no
  exception; when no record has the id it renders nothing; when \<open>r\<close> is the first record
  with the id (no record before it has the id) the result is the activation decision for
  \<open>r\<close>, whatever follows it: its children if \<open>r\<close> is manually activated or its release
  date is a point in time before the current one, nothing otherwise.
\<close>

theorem C5_lookup:
  "\<not> isl (FoggleConsumer_render ident children now (ContextProvider_value \<lparr>enabledFeatures = snapshot\<rparr>))
   \<and> ((\<forall>f\<in>set snapshot. feature_id f \<noteq> ident) \<longrightarrow>
        FoggleConsumer_render ident children now (ContextProvider_value \<lparr>enabledFeatures = snapshot\<rparr>) = Inr None)
   \<and> ((\<forall>f\<in>set pre. feature_id f \<noteq> ident) \<and> feature_id r = ident \<and> snapshot = pre @ r # post
        \<and> \<bar>now\<bar> \<le> 8640000000000000 \<longrightarrow>
        FoggleConsumer_render ident children now (ContextProvider_value \<lparr>enabledFeatures = snapshot\<rparr>)
          = Inr (if manually_activated r
                    \<or> (\<exists>t. release_date r = Milliseconds t \<and> \<bar>t\<bar> \<le> 8640000000000000 \<and> t < now)
                 then Some children else None))"
proof (intro conjI impI)
  show "\<not> isl (FoggleConsumer_render ident children now (ContextProvider_value \<lparr>enabledFeatures = snapshot\<rparr>))"
    by (simp add: FoggleConsumer_render_def ContextProvider_value_def split: option.split)
next
  assume "\<forall>f\<in>set snapshot. feature_id f \<noteq> ident"
  then have "find (\<lambda>feature. feature_id feature = ident) snapshot = None"
    by (intro find_no_match) simp
  then show "FoggleConsumer_render ident children now (ContextProvider_value \<lparr>enabledFeatures = snapshot\<rparr>) = Inr None"
    by (simp add: FoggleConsumer_render_def ContextProvider_value_def)
next
  assume a: "(\<forall>f\<in>set pre. feature_id f \<noteq> ident) \<and> feature_id r = ident \<and> snapshot = pre @ r # post
        \<and> \<bar>now\<bar> \<le> 8640000000000000"
  then have "find (\<lambda>feature. feature_id feature = ident) snapshot = Some r"
    using find_first_match [of pre "\<lambda>feature. feature_id feature = ident" r post] by simp
  moreover from a have "isBefore (release_date r) (Milliseconds now)
       \<longleftrightarrow> (\<exists>t. release_date r = Milliseconds t \<and> \<bar>t\<bar> \<le> 8640000000000000 \<and> t < now)"
    by (intro isBefore_now) simp
  ultimately show "FoggleConsumer_render ident children now (ContextProvider_value \<lparr>enabledFeatures = snapshot\<rparr>)
          = Inr (if manually_activated r
                    \<or> (\<exists>t. release_date r = Milliseconds t \<and> \<bar>t\<bar> \<le> 8640000000000000 \<and> t < now)
                 then Some children else None)"
    by (simp add: FoggleConsumer_render_def ContextProvider_value_def)
qed

theorem C5_lookup_witness:
  "FoggleConsumer_render ''c'' (0::nat) 1000
     (ContextProvider_value \<lparr>enabledFeatures =
        [\<lparr>feature_id = ''a'', manually_activated = False, release_date = Milliseconds 900\<rparr>,
         \<lparr>feature_id = ''b'', manually_activated = False, release_date = Milliseconds 1100\<rparr>]\<rparr>) = Inr None
   \<and> FoggleConsumer_render ''b'' (0::nat) 1000
     (ContextProvider_value \<lparr>enabledFeatures =
        [\<lparr>feature_id = ''a'', manually_activated = False, release_date = Milliseconds 900\<rparr>,
         \<lparr>feature_id = ''b'', manually_activated = False, release_date = Milliseconds 950\<rparr>,
         \<lparr>feature_id = ''b'', manually_activated = False, release_date = Milliseconds 1100\<rparr>]\<rparr>) = Inr (Some 0)
   \<and> FoggleConsumer_render ''b'' (0::nat) 1000
     (ContextProvider_value \<lparr>enabledFeatures =
        [\<lparr>feature_id = ''b'', manually_activated = False, release_date = Milliseconds (- 9000000000000000)\<rparr>,
         \<lparr>feature_id = ''b'', manually_activated = True, release_date = Milliseconds 900\<rparr>]\<rparr>) = Inr None"
proof -
  let ?a = "\<lparr>feature_id = ''a'', manually_activated = False, release_date = Milliseconds 900\<rparr>"
  let ?b1 = "\<lparr>feature_id = ''b'', manually_activated = False, release_date = Milliseconds 950\<rparr>"
  let ?b2 = "\<lparr>feature_id = ''b'', manually_activated = False, release_date = Milliseconds 1100\<rparr>"
  let ?b3 = "\<lparr>feature_id = ''b'', manually_activated = False, release_date = Milliseconds (- 9000000000000000)\<rparr>"
  let ?b4 = "\<lparr>feature_id = ''b'', manually_activated = True, release_date = Milliseconds 900\<rparr>"
  have miss: "FoggleConsumer_render ''c'' (0::nat) 1000
      (ContextProvider_value \<lparr>enabledFeatures = [?a, ?b2]\<rparr>) = Inr None"
    using C5_lookup [of "''c''" "0::nat" 1000 "[?a, ?b2]"] by simp
  have hit: "FoggleConsumer_render ''b'' (0::nat) 1000
      (ContextProvider_value \<lparr>enabledFeatures = [?a, ?b1, ?b2]\<rparr>) = Inr (Some 0)"
    using C5_lookup [of "''b''" "0::nat" 1000 "[?a, ?b1, ?b2]" "[?a]" ?b1 "[?b2]"] by simp
  have out_of_range: "FoggleConsumer_render ''b'' (0::nat) 1000
      (ContextProvider_value \<lparr>enabledFeatures = [?b3, ?b4]\<rparr>) = Inr None"
    using C5_lookup [of "''b''" "0::nat" 1000 "[?b3, ?b4]" "[]" ?b3 "[?b4]"] by simp
  from miss hit out_of_range show ?thesis by blast
qed

text \<open>
  C6. A consumer with no provider above it, so that no fetch has ever happened, receives
  the default of \<open>React.createContext\<close>. Its list of enabled features is empty, but it
  sits at the top level of the value, where the consumer does not look: the query reads
  \<open>value.features.enabledFeatures\<close> and throws instead of answering "not active".
\<close>

theorem C6_default_context:
  "enabledFeatures_top default_context = Some []
   \<and> FoggleConsumer_render ''a'' (0::nat) 0 default_context
       = Inl (TypeError ''Cannot read property 'enabledFeatures' of undefined'')"
  by (simp add: default_context_def FoggleConsumer_render_def)




section \<open>The configuration\<close>

text \<open>
  C2. \<open>addHeader("X","1")\<close> followed by \<open>addHeader({"Y":"2"})\<close>: the test
  \<open>typeof key === 'object'\<close> is never true, so the object is not merged but used as a
  property name. The headers are then \<open>X\<close> with \<open>"1"\<close> and \<open>[object Object]\<close> with
  \<open>undefined\<close>; they are not \<open>{X:"1", Y:"2"}\<close>.
\<close>

theorem C2_addHeader_object_argument:
  "getHeaders (addHeader (JObject [(''Y'', JString ''2'')]) JUndefined
      (addHeader (JString ''X'') (JString ''1'') (FoggleConfig (JString ''h''))))
     = [''X'' \<mapsto> JString ''1'', ''[object Object]'' \<mapsto> JUndefined]
   \<and> getHeaders (addHeader (JObject [(''Y'', JString ''2'')]) JUndefined
      (addHeader (JString ''X'') (JString ''1'') (FoggleConfig (JString ''h''))))
     \<noteq> [''X'' \<mapsto> JString ''1'', ''Y'' \<mapsto> JString ''2'']"
proof -
  let ?h = "getHeaders (addHeader (JObject [(''Y'', JString ''2'')]) JUndefined
      (addHeader (JString ''X'') (JString ''1'') (FoggleConfig (JString ''h''))))"
  have eq: "?h = [''X'' \<mapsto> JString ''1'', ''[object Object]'' \<mapsto> JUndefined]"
    by (simp add: getHeaders_def addHeader_def FoggleConfig_def key_def set_property_def)
  have "?h ''Y'' = None" by (simp add: eq)
  moreover have "[''X'' \<mapsto> JString ''1'', ''Y'' \<mapsto> JString ''2''] ''Y'' = Some (JString ''2'')" by simp
  ultimately have "?h \<noteq> [''X'' \<mapsto> JString ''1'', ''Y'' \<mapsto> JString ''2'']" by (metis option.distinct(1))
  with eq show ?thesis by blast
qed

text \<open>
  C3, as stated, fails: \<open>Infinity\<close> is not a finite number, yet \<open>setUpdateInterval(Infinity)\<close>
  succeeds and stores it.
\<close>

theorem C3_counterexample:
  "fst (setUpdateInterval PosInfinity (FoggleConfig (JString ''h''))) = Inr ()
   \<and> getUpdateInterval (snd (setUpdateInterval PosInfinity (FoggleConfig (JString ''h'')))) = PosInfinity"
  by (simp add: setUpdateInterval_def getUpdateInterval_def)

text \<open>
  C3, amended. For a number \<open>n\<close>, \<open>setUpdateInterval(n)\<close> throws if and only if \<open>n\<close> is
  \<open>NaN\<close>; when it throws, the state, and with it the interval, is unchanged; when it does
  not throw, the stored interval is \<open>n\<close>.
\<close>

theorem C3_setUpdateInterval:
  "(fst (setUpdateInterval n s) = Inl (Error ''interval must be of type number'') \<longleftrightarrow> n = NaN)
   \<and> (n = NaN \<longrightarrow> snd (setUpdateInterval n s) = s)
   \<and> (n \<noteq> NaN \<longrightarrow> fst (setUpdateInterval n s) = Inr ()
         \<and> getUpdateInterval (snd (setUpdateInterval n s)) = n)"
  by (cases n) (simp_all add: setUpdateInterval_def getUpdateInterval_def)

theorem C3_setUpdateInterval_witness:
  "fst (setUpdateInterval NaN (FoggleConfig (JString ''h''))) = Inl (Error ''interval must be of type number'')
   \<and> getUpdateInterval (snd (setUpdateInterval NaN (FoggleConfig (JString ''h'')))) = Finite 600000
   \<and> fst (setUpdateInterval (Finite 5) (FoggleConfig (JString ''h''))) = Inr ()
   \<and> getUpdateInterval (snd (setUpdateInterval (Finite 5) (FoggleConfig (JString ''h'')))) = Finite 5"
  using C3_setUpdateInterval [of NaN "FoggleConfig (JString ''h'')"]
    C3_setUpdateInterval [of "Finite 5" "FoggleConfig (JString ''h'')"]
  by (simp add: FoggleConfig_def getUpdateInterval_def)

text \<open>
  C4, as stated, fails: with an empty or an absent host, \<open>FoggleConfig\<close> returns a
  configuration that has this host; \<open>console.assert\<close> writes its message and does not throw.
\<close>

theorem C4_counterexample:
  "getHost (FoggleConfig (JString [])) = JString []
   \<and> getHost (FoggleConfig JUndefined) = JUndefined
   \<and> console (FoggleConfig JUndefined) = [''Host not specified. Please pass a host to the FoggleConfig'']"
  by (simp add: FoggleConfig_def getHost_def console_assert_def)

text \<open>
  C4, amended. For every host, \<open>FoggleConfig\<close> returns a configuration with that host,
  the update interval 600000 and no headers; the console receives the message
  "Host not specified" exactly when the host is empty or absent.
\<close>

theorem C4_FoggleConfig:
  "getHost (FoggleConfig h) = h
   \<and> getUpdateInterval (FoggleConfig h) = Finite 600000
   \<and> getHeaders (FoggleConfig h) = Map.empty
   \<and> console (FoggleConfig h) =
       (if truthy h then [] else [''Host not specified. Please pass a host to the FoggleConfig''])"
  by (simp add: FoggleConfig_def getHost_def getUpdateInterval_def getHeaders_def console_assert_def)

theorem C4_FoggleConfig_witness:
  "getHost (FoggleConfig (JString ''h'')) = JString ''h''
   \<and> getUpdateInterval (FoggleConfig (JString ''h'')) = Finite 600000
   \<and> getHeaders (FoggleConfig (JString ''h'')) = Map.empty
   \<and> console (FoggleConfig (JString ''h'')) = []"
  using C4_FoggleConfig [of "JString ''h''"] by simp

text \<open>
  C7. \<open>getOptions()\<close> copies the three properties of \<open>defaultOptions\<close>, so the copy's
  \<open>headers\<close> is the configuration's own headers object: after \<open>getOptions().headers["Z"] = "1"\<close>
  on a new configuration, \<open>getHeaders()\<close> returns \<open>{Z:"1"}\<close> where it returned \<open>{}\<close> before.
\<close>

theorem C7_getOptions_shares_headers:
  "getHeaders (FoggleConfig (JString ''h'')) = Map.empty
   \<and> getHeaders (snd (mutate (AssignHeader ''Z'' (JString ''1''))
        (getOptions (FoggleConfig (JString ''h'')), FoggleConfig (JString ''h''))))
       = [''Z'' \<mapsto> JString ''1'']"
  by (simp add: getHeaders_def getOptions_def FoggleConfig_def set_property_def)

text \<open>
  C10. The mutators are frame-disjoint: \<open>addHeader\<close> and \<open>clearHeaders\<close> leave the host and
  the update interval as they are, and a \<open>setUpdateInterval\<close> that does not throw leaves
  the host and the headers as they are.
\<close>

theorem C10_frame:
  "getHost (addHeader name v s) = getHost s
   \<and> getUpdateInterval (addHeader name v s) = getUpdateInterval s
   \<and> getHost (clearHeaders s) = getHost s
   \<and> getUpdateInterval (clearHeaders s) = getUpdateInterval s
   \<and> (fst (setUpdateInterval n s) = Inr () \<longrightarrow>
        getHost (snd (setUpdateInterval n s)) = getHost s
        \<and> getHeaders (snd (setUpdateInterval n s)) = getHeaders s)"
  by (simp add: getHost_def getUpdateInterval_def getHeaders_def addHeader_def clearHeaders_def
      setUpdateInterval_def new_object_def key_def Let_def)

theorem C10_frame_witness:
  "fst (setUpdateInterval (Finite 5) (addHeader (JString ''X'') (JString ''1'') (FoggleConfig (JString ''h'')))) = Inr ()
   \<and> getHost (snd (setUpdateInterval (Finite 5) (addHeader (JString ''X'') (JString ''1'') (FoggleConfig (JString ''h''))))) = JString ''h''
   \<and> getHeaders (snd (setUpdateInterval (Finite 5) (addHeader (JString ''X'') (JString ''1'') (FoggleConfig (JString ''h''))))) = [''X'' \<mapsto> JString ''1'']"
proof -
  have ok: "fst (setUpdateInterval (Finite 5) (addHeader (JString ''X'') (JString ''1'') (FoggleConfig (JString ''h'')))) = Inr ()"
    by (simp add: setUpdateInterval_def)
  have hs: "getHeaders (addHeader (JString ''X'') (JString ''1'') (FoggleConfig (JString ''h''))) = [''X'' \<mapsto> JString ''1'']"
    by (simp add: getHeaders_def addHeader_def FoggleConfig_def key_def set_property_def)
  have ho: "getHost (addHeader (JString ''X'') (JString ''1'') (FoggleConfig (JString ''h''))) = JString ''h''"
    by (simp add: getHost_def addHeader_def FoggleConfig_def key_def)
  show ?thesis
    using C10_frame [of "JString ''X''" "JString ''1''" "addHeader (JString ''X'') (JString ''1'') (FoggleConfig (JString ''h''))" "Finite 5"]
      ok hs ho by simp
qed

section \<open>The poller\<close>

text \<open>
  C8. On mount the provider calls \<open>checkFeatures\<close> exactly once, at once, with the host and
  the headers of the configuration, and then registers \<open>update\<close> with \<open>setInterval\<close> at the
  configuration's update interval; each firing of the timer is one more call of
  \<open>checkFeatures\<close> with the host and the headers the configuration has then.
\<close>

theorem C8_componentDidMount:
  "componentDidMount cfg =
     [CheckFeatures (getHost cfg) (getHeaders cfg), SetInterval Update (getUpdateInterval cfg)]
   \<and> fire Update cfg' = [CheckFeatures (getHost cfg') (getHeaders cfg')]"
  by (simp add: componentDidMount_def update_def)

end
